theory Spec2Isabelle
  imports Main "HOL-Library.Word" "HOL-Library.AList"
begin

unbundle bit_operations_syntax

section \<open>Go runtime and standard-library operations used by the receiver\<close>

text \<open>
  Go strings are byte sequences, modelled as \<^typ>\<open>string\<close>. The separators the
  receiver looks for (\<open>{\<close>, \<open>=\<close>, \<open>,\<close>) are ASCII, and an ASCII byte never occurs inside
  a multi-byte UTF-8 sequence, so iterating over bytes and over runes finds the same
  separators at the same positions.
\<close>

datatype panic = IndexOutOfRange | SliceBoundsOutOfRange

text \<open>\<open>xs[i]\<close>: panics when \<open>i\<close> is out of range.\<close>

definition index :: "'a list \<Rightarrow> nat \<Rightarrow> panic + 'a" where
  "index xs i = (if i < length xs then Inr (xs ! i) else Inl IndexOutOfRange)"

text \<open>\<open>s[lo:hi]\<close>: panics unless \<open>0 \<le> lo \<le> hi \<le> len(s)\<close>.\<close>

definition slice :: "string \<Rightarrow> int \<Rightarrow> int \<Rightarrow> panic + string" where
  "slice s lo hi =
     (if 0 \<le> lo \<and> lo \<le> hi \<and> hi \<le> int (length s)
      then Inr (take (nat (hi - lo)) (drop (nat lo) s))
      else Inl SliceBoundsOutOfRange)"

text \<open>\<open>strings.Index(s, "{")\<close> for a one-byte pattern: the first position, or \<open>-1\<close>.\<close>

fun Index :: "string \<Rightarrow> char \<Rightarrow> int" where
  "Index [] c = - 1"
| "Index (x # xs) c =
     (if x = c then 0 else (let r = Index xs c in if r < 0 then - 1 else r + 1))"

text \<open>
  \<open>strings.FieldsFunc(s, f)\<close>: the maximal runs of characters that do not satisfy \<open>f\<close>;
  no field is empty. The second argument is the field being read (Go keeps its start
  index), empty while between fields.
\<close>

fun FieldsFunc_from :: "(char \<Rightarrow> bool) \<Rightarrow> string \<Rightarrow> string \<Rightarrow> string list" where
  "FieldsFunc_from f w [] = (if w = [] then [] else [w])"
| "FieldsFunc_from f w (c # cs) =
     (if f c then (if w = [] then FieldsFunc_from f [] cs else w # FieldsFunc_from f [] cs)
      else FieldsFunc_from f (w @ [c]) cs)"

definition FieldsFunc :: "string \<Rightarrow> (char \<Rightarrow> bool) \<Rightarrow> string list" where
  "FieldsFunc s f = FieldsFunc_from f [] s"

text \<open>
  \<open>strconv.ParseUint(s, 10, 64)\<close>. With an explicit base 10 there is no prefix and no
  underscore handling; a sign is a syntax error. The error is a \<open>*NumError\<close> carrying the
  input and the kind. On a range error Go also returns the maximal value, which no caller
  here reads.
\<close>

datatype num_error_kind = ErrSyntax | ErrRange

datatype num_error = NumError string num_error_kind

definition lower :: "nat \<Rightarrow> nat" where
  "lower b = b OR 32"

definition digit_value :: "char \<Rightarrow> nat option" where
  "digit_value c =
     (let b = (of_char c :: nat) in
      if 48 \<le> b \<and> b \<le> 57 then Some (b - 48)
      else if 97 \<le> lower b \<and> lower b \<le> 122 then Some (lower b - 97 + 10)
      else None)"

definition cutoff :: "64 word" where
  "cutoff = 18446744073709551615 div 10 + 1"

definition maxVal :: "64 word" where
  "maxVal = 18446744073709551615"

fun ParseUint_loop :: "64 word \<Rightarrow> string \<Rightarrow> num_error_kind + 64 word" where
  "ParseUint_loop n [] = Inr n"
| "ParseUint_loop n (c # cs) =
     (case digit_value c of
        None \<Rightarrow> Inl ErrSyntax
      | Some d \<Rightarrow>
          if d \<ge> 10 then Inl ErrSyntax
          else if n \<ge> cutoff then Inl ErrRange
          else (let n' = n * 10; n1 = n' + of_nat d in
                if n1 < n' \<or> n1 > maxVal then Inl ErrRange
                else ParseUint_loop n1 cs))"

definition ParseUint :: "string \<Rightarrow> num_error + 64 word" where
  "ParseUint s =
     (if s = [] then Inl (NumError s ErrSyntax)
      else (case ParseUint_loop 0 s of
              Inl k \<Rightarrow> Inl (NumError s k)
            | Inr n \<Rightarrow> Inr n))"

section \<open>Query parameters\<close>

text \<open>\<open>url.Values\<close> is \<open>map[string][]string\<close>.\<close>

type_synonym Values = "string \<rightharpoonup> string list"

text \<open>\<open>labels.Label\<close> and \<open>labels.Labels\<close> (a slice of labels).\<close>

record Label =
  Name :: string
  Value :: string

record params =
  p_start :: "64 word"
  p_end :: "64 word"
  p_name :: string
  p_labels :: "Label list"

text \<open>The errors \<open>readParams\<close> and \<open>readProfiles\<close> build with \<open>fmt.Errorf\<close>.\<close>

datatype error =
    ErrStartMissing
  | ErrStartParse num_error
  | ErrLabelsMissing
  | ErrLabelsCompile
  | ErrEndMissing
  | ErrEndParse num_error
  | ErrUnsupportedFormat
  | ErrMultipartParse string
  | ErrJfrPartMissing
  | ErrJfrFilename
  | ErrJfrOpen
  | ErrDecompress string
  | ErrRateParse num_error
  | ErrParsePprof string
  | ErrSampleTypes string

text \<open>
  The loop \<open>for j := 0; j < len(words); j += 2\<close> appending
  \<open>Label{Name: words[j], Value: words[j+1]}\<close>: reading \<open>words[j+1]\<close> past the end panics.
\<close>

fun appendLabels :: "Label list \<Rightarrow> string list \<Rightarrow> panic + Label list" where
  "appendLabels ls [] = Inr ls"
| "appendLabels ls [w] = Inl IndexOutOfRange"
| "appendLabels ls (k # v # ws) = appendLabels (ls @ [\<lparr>Name = k, Value = v\<rparr>]) ws"

definition isSep :: "char \<Rightarrow> bool" where
  "isSep r = (r = CHR ''='' \<or> r = CHR '','')"

text \<open>
  \<open>readParams\<close>, the part that reads the first value \<open>v\<close> of \<open>name\<close> (from
  \<open>strings.Index\<close> to the assignment of \<open>p.name\<close>).
\<close>

definition readParams_name :: "params \<Rightarrow> string \<Rightarrow> panic + (params \<times> error option)" where
  "readParams_name p v =
     (let i = Index v CHR ''{''; length = int (length v) in
      if i < 0 then (let i = length in Inr (p\<lparr>p_name := take (nat i) v\<rparr>, None))
      else
        (case slice v (i + 1) (length - 1) of
           Inl pn \<Rightarrow> Inl pn
         | Inr promqllike \<Rightarrow>
             if size promqllike > 0 then
               (let words = FieldsFunc promqllike isSep; sz = size words in
                if sz = 0 \<or> sz mod 2 \<noteq> 0 then Inr (p, Some ErrLabelsCompile)
                else (case appendLabels (p_labels p) words of
                        Inl pn \<Rightarrow> Inl pn
                      | Inr ls \<Rightarrow> Inr (p\<lparr>p_labels := ls, p_name := take (nat i) v\<rparr>, None)))
             else Inr (p\<lparr>p_name := take (nat i) v\<rparr>, None)))"

text \<open>\<open>readParams\<close>, the part that reads \<open>until\<close>.\<close>

definition readParams_until :: "Values \<Rightarrow> params \<Rightarrow> panic + (params \<times> error option)" where
  "readParams_until qsv p =
     (case qsv ''until'' of
        None \<Rightarrow> Inr (p, Some ErrEndMissing)
      | Some tmp \<Rightarrow>
          (case index tmp 0 of
             Inl pn \<Rightarrow> Inl pn
           | Inr u \<Rightarrow>
               (case ParseUint u of
                  Inl e \<Rightarrow> Inr (p, Some (ErrEndParse e))
                | Inr end \<Rightarrow> Inr (p\<lparr>p_end := end\<rparr>, None))))"

definition readParams :: "Values \<Rightarrow> panic + (params \<times> error option)" where
  "readParams qsv =
     (let p = \<lparr>p_start = 0, p_end = 0, p_name = [], p_labels = []\<rparr> in
      case qsv ''from'' of
        None \<Rightarrow> Inr (p, Some ErrStartMissing)
      | Some tmp \<Rightarrow>
          (case index tmp 0 of
             Inl pn \<Rightarrow> Inl pn
           | Inr s \<Rightarrow>
               (case ParseUint s of
                  Inl e \<Rightarrow> Inr (p, Some (ErrStartParse e))
                | Inr start \<Rightarrow>
                    (let p = p\<lparr>p_start := start\<rparr> in
                     case qsv ''name'' of
                       None \<Rightarrow> Inr (p, Some ErrLabelsMissing)
                     | Some tmp \<Rightarrow>
                         (case index tmp 0 of
                            Inl pn \<Rightarrow> Inl pn
                          | Inr v \<Rightarrow>
                              (case readParams_name p v of
                                 Inl pn \<Rightarrow> Inl pn
                               | Inr (p, Some e) \<Rightarrow> Inr (p, Some e)
                               | Inr (p, None) \<Rightarrow> readParams_until qsv p))))))"

section \<open>Profiles and log records\<close>

text \<open>
  \<open>profile_types.ProfileIR\<close> and \<open>profile_types.Metadata\<close>, as the receiver reads them.
  \<open>ir_PayloadType\<close> holds what \<open>fmt.Sprint(prof.PayloadType)\<close> prints.
\<close>

record ProfileType =
  pt_Type :: string
  pt_SampleType :: "string list"
  pt_SampleUnit :: "string list"
  pt_PeriodType :: string
  pt_PeriodUnit :: string

record ProfileIR =
  ir_Type :: ProfileType
  ir_Payload :: string
  ir_PayloadType :: string

record Metadata =
  SampleRateHertz :: "64 word"

text \<open>
  \<open>pcommon.Value\<close> and \<open>pcommon.Map\<close>: a map keeps its entries in insertion order, and
  \<open>PutStr\<close>, \<open>PutEmptyMap\<close> and \<open>PutEmptySlice\<close> replace the value of a key that is
  already there, which is what \<^const>\<open>AList.update\<close> does.
\<close>

datatype AnyValue =
    ValueEmpty
  | ValueStr string
  | ValueMap "(string \<times> AnyValue) list"
  | ValueSlice "AnyValue list"
  | ValueBytes string

type_synonym Map = "(string \<times> AnyValue) list"

record LogRecord =
  Timestamp :: "64 word"
  Attributes :: Map
  Body :: AnyValue

text \<open>\<open>plog.Logs\<close>: resource logs, each a list of scope logs, each a list of records.\<close>

type_synonym Logs = "LogRecord list list list"

definition ns :: "64 word \<Rightarrow> 64 word" where
  "ns sec = sec * 1000000000"

text \<open>\<open>fmt.Sprint\<close> of a \<open>uint64\<close>: its decimal digits.\<close>

definition digits :: string where
  "digits = ''0123456789''"

fun decimal :: "nat \<Rightarrow> string" where
  "decimal n =
     (if n < 10 then [digits ! n]
      else decimal (n div 10) @ [digits ! (n mod 10)])"

declare decimal.simps [simp del]

definition Sprint_uint64 :: "64 word \<Rightarrow> string" where
  "Sprint_uint64 w = decimal (unat w)"

text \<open>
  \<open>stringToAnyArray\<close> followed by \<open>pcommon.Slice.FromRaw\<close>: \<open>FromRaw\<close> fails only on a
  value of an unsupported type, and a string is supported.
\<close>

definition stringToAnyArray :: "string list \<Rightarrow> AnyValue list" where
  "stringToAnyArray s = map ValueStr s"

definition FromRaw :: "AnyValue list \<Rightarrow> string + AnyValue list" where
  "FromRaw vs = Inr vs"

definition setAttrsFromProfile :: "ProfileIR \<Rightarrow> Map \<Rightarrow> Map \<times> string option" where
  "setAttrsFromProfile prof m =
     (let m = AList.update ''type'' (ValueStr (pt_Type (ir_Type prof))) m;
          m = AList.update ''sample_types'' (ValueSlice []) m in
      case FromRaw (stringToAnyArray (pt_SampleType (ir_Type prof))) of
        Inl err \<Rightarrow> (m, Some err)
      | Inr s \<Rightarrow>
          (let m = AList.update ''sample_types'' (ValueSlice s) m;
               m = AList.update ''sample_units'' (ValueSlice []) m in
           case FromRaw (stringToAnyArray (pt_SampleUnit (ir_Type prof))) of
             Inl err \<Rightarrow> (m, Some err)
           | Inr s \<Rightarrow>
               (let m = AList.update ''sample_units'' (ValueSlice s) m;
                    m = AList.update ''period_type'' (ValueStr (pt_PeriodType (ir_Type prof))) m;
                    m = AList.update ''period_unit'' (ValueStr (pt_PeriodUnit (ir_Type prof))) m;
                    m = AList.update ''payload_type'' (ValueStr (ir_PayloadType prof)) m
                in (m, None))))"

text \<open>The \<open>tags\<close> map: one \<open>PutStr\<close> per label, in order.\<close>

definition putTags :: "Label list \<Rightarrow> Map" where
  "putTags ls = fold (\<lambda>l tm. AList.update (Name l) (ValueStr (Value l)) tm) ls []"

text \<open>
  The loop of \<open>readProfiles\<close> over the parsed profiles: the records appended so far, the
  running payload size, and the error that stopped it. A record whose attributes
  failed stays in the list without its body.
\<close>

fun appendRecords ::
  "params \<Rightarrow> LogRecord list \<Rightarrow> int \<Rightarrow> ProfileIR list \<Rightarrow> LogRecord list \<times> int \<times> error option" where
  "appendRecords pm rs sz [] = (rs, sz, None)"
| "appendRecords pm rs sz (pr # ps) =
     (let r = \<lparr>Timestamp = ns (p_start pm), Attributes = [], Body = ValueEmpty\<rparr>;
          m = Attributes r;
          m = AList.update ''duration_ns'' (ValueStr (Sprint_uint64 (ns (p_end pm - p_start pm)))) m;
          m = AList.update ''service_name'' (ValueStr (p_name pm)) m;
          m = AList.update ''tags'' (ValueMap (putTags (p_labels pm))) m in
      case setAttrsFromProfile pr m of
        (m, Some err) \<Rightarrow> (rs @ [r\<lparr>Attributes := m\<rparr>], sz, Some (ErrSampleTypes err))
      | (m, None) \<Rightarrow>
          appendRecords pm
            (rs @ [r\<lparr>Attributes := m, Body := ValueBytes (ir_Payload pr)\<rparr>])
            (sz + int (length (ir_Payload pr))) ps)"

section \<open>The request handler\<close>

text \<open>
  What the handler reads of a \<open>*http.Request\<close>: the method, the parsed query
  (\<open>req.URL.Query()\<close>) and what \<open>req.ParseMultipartForm\<close> makes of the body, either
  the error's message or the file headers of the form by field name. \<open>Open\<close> is what
  \<open>fh.Open()\<close> gives: the bytes of the part, or nothing when opening fails.
\<close>

record FileHeader =
  Filename :: string
  Open :: "string option"

record Request =
  Method :: string
  URL_Query :: Values
  ParseMultipartForm :: "string + (string \<rightharpoonup> FileHeader list)"

text \<open>
  The collaborators outside this file: \<open>strconv.Quote\<close> (used by the message of a
  \<open>*NumError\<close>), the decompressor (\<open>compress.Decompressor.Decompress\<close> with gzip: the
  error's message or the decompressed bytes), the profile parser (\<open>parser.Parse\<close>), the
  next consumer (\<open>ConsumeLogs\<close>: the error's message, or nothing on success), the clock
  (\<open>time.Now().UnixMilli()\<close> and \<open>time.Now().Unix()\<close> when the latency is recorded) and
  the start time kept in the context.
\<close>

record env =
  Quote :: "string \<Rightarrow> string"
  Decompress :: "string \<Rightarrow> string + string"
  Parse :: "string \<Rightarrow> Metadata \<Rightarrow> string + ProfileIR list"
  ConsumeLogs :: "Logs \<Rightarrow> string option"
  NowUnixMilli :: int
  NowUnix :: int
  startTimeFromContext :: int

text \<open>
  What a request does to the outside, in order: metric observations (value, then the
  attributes), log entries, writes to the response, and calls of the collaborators.
\<close>

datatype event =
    RequestTotalAdd int string string
  | ResponseTimeMillisRecord int string string
  | RequestBodyUncompressedSizeBytesRecord int string string string
  | ParsedBodyUncompressedSizeBytesRecord int string string string
  | LoggerError string
  | HeaderSet string string
  | WriteHeader nat
  | Write string
  | CallParseMultipartForm
  | CallDecompress string
  | CallParse string Metadata
  | CallConsumeLogs Logs

definition formatJfr :: string where "formatJfr = ''jfr''"
definition formatPprof :: string where "formatPprof = ''pprof''"
definition errorCodeError :: string where "errorCodeError = ''1''"
definition errorCodeSuccess :: string where "errorCodeSuccess = []"

definition StatusNoContent :: nat where "StatusNoContent = 204"
definition StatusBadRequest :: nat where "StatusBadRequest = 400"
definition StatusMethodNotAllowed :: nat where "StatusMethodNotAllowed = 405"
definition StatusInternalServerError :: nat where "StatusInternalServerError = 500"
definition StatusRequestTimeout :: nat where "StatusRequestTimeout = 408"
definition MethodPost :: string where "MethodPost = ''POST''"

text \<open>The message of an error (\<open>err.Error()\<close>); \<open>q\<close> is \<open>strconv.Quote\<close>.\<close>

fun NumError_Error :: "(string \<Rightarrow> string) \<Rightarrow> num_error \<Rightarrow> string" where
  "NumError_Error q (NumError num k) =
     ''strconv.ParseUint: parsing '' @ q num @ '': '' @
     (case k of ErrSyntax \<Rightarrow> ''invalid syntax'' | ErrRange \<Rightarrow> ''value out of range'')"

fun Error :: "(string \<Rightarrow> string) \<Rightarrow> error \<Rightarrow> string" where
  "Error q ErrStartMissing = ''required start time is missing''"
| "Error q (ErrStartParse e) = ''failed to parse start time: '' @ NumError_Error q e"
| "Error q ErrLabelsMissing = ''required labels are missing''"
| "Error q ErrLabelsCompile = ''failed to compile labels''"
| "Error q ErrEndMissing = ''required end time is missing''"
| "Error q (ErrEndParse e) = ''failed to parse end time: '' @ NumError_Error q e"
| "Error q ErrUnsupportedFormat = ''unsupported format, supported: [jfr]''"
| "Error q (ErrMultipartParse m) = ''failed to parse multipart request: '' @ m"
| "Error q ErrJfrPartMissing = ''required jfr part is missing''"
| "Error q ErrJfrFilename = ''jfr filename is not '' @ [CHR 0x27] @ formatJfr @ [CHR 0x27]"
| "Error q ErrJfrOpen = ''failed to open jfr file''"
| "Error q (ErrDecompress m) = ''failed to decompress body: '' @ m"
| "Error q (ErrRateParse e) = ''failed to parse rate: '' @ NumError_Error q e"
| "Error q (ErrParsePprof m) = ''failed to parse pprof: '' @ m"
| "Error q (ErrSampleTypes m) = ''failed to parse sample types: '' @ m"

definition writeResponse :: "string \<Rightarrow> nat \<Rightarrow> string option \<Rightarrow> event list" where
  "writeResponse contentType statusCode payload =
     (if length contentType > 0 then [HeaderSet ''Content-Type'' contentType] else []) @
     [WriteHeader statusCode] @
     (case payload of None \<Rightarrow> [] | Some b \<Rightarrow> [Write b])"

definition writeResponseNoContent :: "event list" where
  "writeResponseNoContent = writeResponse [] StatusNoContent None"

definition handleError ::
  "env \<Rightarrow> string \<Rightarrow> nat \<Rightarrow> string \<Rightarrow> string \<Rightarrow> string \<Rightarrow> event list" where
  "handleError ev contentType statusCode msg service errorCode =
     [RequestTotalAdd 1 service errorCode,
      ResponseTimeMillisRecord (NowUnix ev - startTimeFromContext ev) service errorCode,
      LoggerError msg] @
     writeResponse ''text/plain'' statusCode (Some msg)"

text \<open>\<open>openMultipartJfr\<close>: the opened part, or the error.\<close>

definition openMultipartJfr :: "Request \<Rightarrow> (panic + (error + string)) \<times> event list" where
  "openMultipartJfr req =
     (case ParseMultipartForm req of
        Inl m \<Rightarrow> (Inr (Inl (ErrMultipartParse m)), [CallParseMultipartForm])
      | Inr mf \<Rightarrow>
          (case mf formatJfr of
             None \<Rightarrow> (Inr (Inl ErrJfrPartMissing), [CallParseMultipartForm])
           | Some part \<Rightarrow>
               (case index part 0 of
                  Inl pn \<Rightarrow> (Inl pn, [CallParseMultipartForm])
                | Inr fh \<Rightarrow>
                    if Filename fh \<noteq> formatJfr
                    then (Inr (Inl ErrJfrFilename), [CallParseMultipartForm])
                    else (case Open fh of
                            None \<Rightarrow> (Inr (Inl ErrJfrOpen), [CallParseMultipartForm])
                          | Some f \<Rightarrow> (Inr (Inr f), [CallParseMultipartForm])))))"

text \<open>
  \<open>readProfiles\<close> after the parser has been chosen: from \<open>openMultipartJfr\<close> to the end.
  The pooled buffer and the rewritten request headers are left out: nothing below reads
  them.
\<close>

definition readProfiles_jfr ::
  "env \<Rightarrow> Request \<Rightarrow> params \<Rightarrow> (panic + (Logs \<times> error option)) \<times> event list" where
  "readProfiles_jfr ev req pm =
     (let logs = ([] :: Logs); qs = URL_Query req in
      case openMultipartJfr req of
        (Inl pn, es) \<Rightarrow> (Inl pn, es)
      | (Inr (Inl err), es) \<Rightarrow> (Inr (logs, Some err), es)
      | (Inr (Inr f), es) \<Rightarrow>
          (let es = es @ [CallDecompress f] in
           case Decompress ev f of
             Inl m \<Rightarrow> (Inr (logs, Some (ErrDecompress m)), es)
           | Inr buf \<Rightarrow>
               (let es = es @ [RequestBodyUncompressedSizeBytesRecord
                                 (int (length buf)) (p_name pm) formatJfr []];
                    md = \<lparr>SampleRateHertz = 0\<rparr>;
                    rate = (case qs ''sampleRate'' of
                              None \<Rightarrow> Inr (Inr md)
                            | Some tmp \<Rightarrow>
                                (case index tmp 0 of
                                   Inl pn \<Rightarrow> Inl pn
                                 | Inr s \<Rightarrow>
                                     (case ParseUint s of
                                        Inl e \<Rightarrow> Inr (Inl (ErrRateParse e))
                                      | Inr hz \<Rightarrow> Inr (Inr (md\<lparr>SampleRateHertz := hz\<rparr>))))) in
                case rate of
                  Inl pn \<Rightarrow> (Inl pn, es)
                | Inr (Inl err) \<Rightarrow> (Inr (logs, Some err), es)
                | Inr (Inr md) \<Rightarrow>
                    (let es = es @ [CallParse buf md] in
                     case Parse ev buf md of
                       Inl m \<Rightarrow> (Inr (logs, Some (ErrParsePprof m)), es)
                     | Inr ps \<Rightarrow>
                         (case appendRecords pm [] 0 ps of
                            (rs, sz, Some err) \<Rightarrow> (Inr ([[rs]], Some err), es)
                          | (rs, sz, None) \<Rightarrow>
                              (Inr ([[rs]], None),
                               es @ [ParsedBodyUncompressedSizeBytesRecord
                                       sz (p_name pm) formatPprof []]))))))"

definition readProfiles ::
  "env \<Rightarrow> Request \<Rightarrow> params \<Rightarrow> (panic + (Logs \<times> error option)) \<times> event list" where
  "readProfiles ev req pm =
     (let logs = ([] :: Logs); qs = URL_Query req in
      case qs ''format'' of
        None \<Rightarrow> (Inr (logs, Some ErrUnsupportedFormat), [])
      | Some tmp \<Rightarrow>
          (case index tmp 0 of
             Inl pn \<Rightarrow> (Inl pn, [])
           | Inr fmt \<Rightarrow>
               if fmt = ''jfr'' then readProfiles_jfr ev req pm
               else (Inr (logs, Some ErrUnsupportedFormat), [])))"

text \<open>
  \<open>handle\<close>: the body of the goroutine. The result is the panic that ended it, if any,
  and the events it caused.
\<close>

definition handle :: "env \<Rightarrow> Request \<Rightarrow> panic option \<times> event list" where
  "handle ev req =
     (let qs = URL_Query req in
      case readParams qs of
        Inl pn \<Rightarrow> (Some pn, [])
      | Inr (pm, Some err) \<Rightarrow>
          (None, handleError ev ''text/plain'' StatusBadRequest ''bad url query'' [] errorCodeError)
      | Inr (pm, None) \<Rightarrow>
          if Method req \<noteq> MethodPost
          then (None, handleError ev ''text/plain'' StatusMethodNotAllowed
                        (''method not allowed, supported: ['' @ MethodPost @ '']'')
                        (p_name pm) errorCodeError)
          else
            (case readProfiles ev req pm of
               (Inl pn, es) \<Rightarrow> (Some pn, es)
             | (Inr (pl, Some err), es) \<Rightarrow>
                 (None, es @ handleError ev ''text/plain'' StatusBadRequest
                               (Error (Quote ev) err) (p_name pm) errorCodeError)
             | (Inr (pl, None), es) \<Rightarrow>
                 (case index pl 0 of
                    Inl pn \<Rightarrow> (Some pn, es)
                  | Inr sls \<Rightarrow>
                      (case index sls 0 of
                         Inl pn \<Rightarrow> (Some pn, es)
                       | Inr rs \<Rightarrow>
                           if length rs = 0 then (None, es @ writeResponseNoContent)
                           else
                             (let es = es @ [CallConsumeLogs pl] in
                              case ConsumeLogs ev pl of
                                Some m \<Rightarrow>
                                  (None, es @ handleError ev ''text/plain'' StatusInternalServerError
                                                m (p_name pm) errorCodeError)
                              | None \<Rightarrow>
                                  (None, es @
                                     [RequestTotalAdd 1 (p_name pm) errorCodeSuccess,
                                      ResponseTimeMillisRecord
                                        (NowUnixMilli ev - startTimeFromContext ev)
                                        (p_name pm) errorCodeSuccess] @
                                     writeResponseNoContent))))))"

text \<open>
  \<open>httpHandlerIngest\<close>: the \<open>select\<close> between the deadline of the context and the
  completion signal of the goroutine started by \<open>handle\<close>. The goroutine sends the
  signal only when its body has ended, so the race is decided by where the deadline falls
  in the goroutine's events: \<open>None\<close> when the goroutine ends first, \<open>Some k\<close> when the
  deadline elapses first, after the goroutine has caused \<open>k\<close> of its events (all of
  them when \<open>k\<close> is larger). On the deadline the handler writes the 408 through
  \<open>handleError\<close> and returns; nothing stops the goroutine, whose remaining events
  follow. \<open>timeout\<close> is what \<open>%s\<close> prints for \<open>recv.cfg.Timeout\<close>.
\<close>

definition httpHandlerIngest ::
  "env \<Rightarrow> string \<Rightarrow> Request \<Rightarrow> nat option \<Rightarrow> panic option \<times> event list" where
  "httpHandlerIngest ev timeout req deadline =
     (case handle ev req of
        (pn, es) \<Rightarrow>
          (case deadline of
             None \<Rightarrow> (pn, es)
           | Some k \<Rightarrow>
               (pn, take k es @
                    handleError ev ''text/plain'' StatusRequestTimeout
                      (''receiver timeout elapsed: '' @ timeout) [] errorCodeError @
                    drop k es)))"

section \<open>Label expressions and example inputs\<close>

text \<open>
  A label expression as the specification writes it: \<open>k1=v1,k2=v2,...\<close> for a list of
  pairs, each key and value a non-empty string without \<open>=\<close> and \<open>,\<close>.
\<close>

fun renderLabels :: "(string \<times> string) list \<Rightarrow> string" where
  "renderLabels [] = []"
| "renderLabels [(k, v)] = k @ ''='' @ v"
| "renderLabels ((k, v) # kv # kvs) = k @ ''='' @ v @ '','' @ renderLabels (kv # kvs)"

definition validToken :: "string \<Rightarrow> bool" where
  "validToken t = (t \<noteq> [] \<and> list_all (\<lambda>c. c \<noteq> CHR ''='' \<and> c \<noteq> CHR '','') t)"

definition validPair :: "string \<times> string \<Rightarrow> bool" where
  "validPair kv = (validToken (fst kv) \<and> validToken (snd kv))"

definition toLabel :: "string \<times> string \<Rightarrow> Label" where
  "toLabel kv = \<lparr>Name = fst kv, Value = snd kv\<rparr>"

text \<open>The query \<open>from=1000&name=...&until=2000&format=jfr\<close>.\<close>

definition exQuery :: "string \<Rightarrow> Values" where
  "exQuery nameValue =
     [''from'' \<mapsto> [''1000''], ''name'' \<mapsto> [nameValue], ''until'' \<mapsto> [''2000''],
      ''format'' \<mapsto> [''jfr'']]"

text \<open>
  An environment whose decompressor returns its input, whose parser returns the given
  profiles, whose consumer accepts every batch, and whose \<open>Quote\<close> puts its argument
  between double quotes.
\<close>

definition exEnv :: "ProfileIR list \<Rightarrow> env" where
  "exEnv ps =
     \<lparr>Quote = (\<lambda>s. [CHR 0x22] @ s @ [CHR 0x22]),
      Decompress = (\<lambda>b. Inr b),
      Parse = (\<lambda>b md. Inr ps),
      ConsumeLogs = (\<lambda>l. None),
      NowUnixMilli = 1005, NowUnix = 1, startTimeFromContext = 1000\<rparr>"

text \<open>A request with the given method and query whose body holds one part \<open>jfr\<close>.\<close>

definition exRequest :: "string \<Rightarrow> Values \<Rightarrow> Request" where
  "exRequest m qs =
     \<lparr>Method = m, URL_Query = qs,
      ParseMultipartForm = Inr [''jfr'' \<mapsto> [\<lparr>Filename = ''jfr'', Open = Some ''B''\<rparr>]]\<rparr>"

definition exProfile :: ProfileIR where
  "exProfile =
     \<lparr>ir_Type = \<lparr>pt_Type = ''cpu'', pt_SampleType = [''samples''], pt_SampleUnit = [''count''],
                 pt_PeriodType = ''cpu'', pt_PeriodUnit = ''ns''\<rparr>,
      ir_Payload = ''P'', ir_PayloadType = ''0''\<rparr>"

section \<open>Reading the events of a request\<close>

definition isRequestTotalAdd :: "event \<Rightarrow> bool" where
  "isRequestTotalAdd e = (case e of RequestTotalAdd _ _ _ \<Rightarrow> True | _ \<Rightarrow> False)"

definition isResponseTimeMillisRecord :: "event \<Rightarrow> bool" where
  "isResponseTimeMillisRecord e = (case e of ResponseTimeMillisRecord _ _ _ \<Rightarrow> True | _ \<Rightarrow> False)"

definition isLoggerError :: "event \<Rightarrow> bool" where
  "isLoggerError e = (case e of LoggerError _ \<Rightarrow> True | _ \<Rightarrow> False)"

definition isWriteHeader :: "event \<Rightarrow> bool" where
  "isWriteHeader e = (case e of WriteHeader _ \<Rightarrow> True | _ \<Rightarrow> False)"

definition isWrite :: "event \<Rightarrow> bool" where
  "isWrite e = (case e of Write _ \<Rightarrow> True | _ \<Rightarrow> False)"

definition isCallConsumeLogs :: "event \<Rightarrow> bool" where
  "isCallConsumeLogs e = (case e of CallConsumeLogs _ \<Rightarrow> True | _ \<Rightarrow> False)"

text \<open>Multipart extraction, decompression and profile parsing.\<close>

definition isBodyProcessing :: "event \<Rightarrow> bool" where
  "isBodyProcessing e =
     (case e of CallParseMultipartForm \<Rightarrow> True | CallDecompress _ \<Rightarrow> True
      | CallParse _ _ \<Rightarrow> True | _ \<Rightarrow> False)"


text \<open>Queries without \<open>from\<close> and without \<open>until\<close>.\<close>

definition exNoFrom :: Values where
  "exNoFrom = [''name'' \<mapsto> [''svc''], ''until'' \<mapsto> [''2000''], ''format'' \<mapsto> [''jfr'']]"

definition exNoUntil :: Values where
  "exNoUntil = [''from'' \<mapsto> [''1000''], ''name'' \<mapsto> [''svc''], ''format'' \<mapsto> [''jfr'']]"

text \<open>
  The parameters of \<open>from=1000&name=svc{env=prod}&until=2000\<close>, parameters whose end
  lies before their start, the record assembled from \<^const>\<open>exProfile\<close>, and a query
  with \<open>format=foo\<close>.
\<close>

definition exParams :: params where
  "exParams = \<lparr>p_start = 1000, p_end = 2000, p_name = ''svc'',
               p_labels = [\<lparr>Name = ''env'', Value = ''prod''\<rparr>]\<rparr>"

definition exRecord :: "params \<Rightarrow> LogRecord" where
  "exRecord pm =
     \<lparr>Timestamp = ns (p_start pm),
      Attributes =
        [(''duration_ns'', ValueStr (Sprint_uint64 (ns (p_end pm - p_start pm)))),
         (''service_name'', ValueStr (p_name pm)),
         (''tags'', ValueMap (putTags (p_labels pm))),
         (''type'', ValueStr ''cpu''),
         (''sample_types'', ValueSlice [ValueStr ''samples'']),
         (''sample_units'', ValueSlice [ValueStr ''count'']),
         (''period_type'', ValueStr ''cpu''),
         (''period_unit'', ValueStr ''ns''),
         (''payload_type'', ValueStr ''0'')],
      Body = ValueBytes ''P''\<rparr>"

definition exReversed :: params where
  "exReversed = \<lparr>p_start = 2000, p_end = 1000, p_name = ''svc'', p_labels = []\<rparr>"



section \<open>Facts about the library operations\<close>

lemma ParseUint_1000: "ParseUint ''1000'' = Inr 1000"
  by (simp add: ParseUint_def digit_value_def cutoff_def maxVal_def word_le_nat_alt
      word_less_nat_alt)

lemma ParseUint_2000: "ParseUint ''2000'' = Inr 2000"
  by (simp add: ParseUint_def digit_value_def cutoff_def maxVal_def word_le_nat_alt
      word_less_nat_alt)

lemma Index_absent: "c \<notin> set s \<Longrightarrow> Index s c = - 1"
  by (induction s) auto

lemma Index_first: "c \<notin> set s \<Longrightarrow> Index (s @ c # t) c = int (length s)"
  by (induction s) (auto simp: Let_def)

lemma FieldsFunc_from_token:
  "list_all (\<lambda>c. \<not> f c) t \<Longrightarrow> FieldsFunc_from f w (t @ r) = FieldsFunc_from f (w @ t) r"
  by (induction t arbitrary: w) auto

lemma validToken_nosep: "validToken t \<Longrightarrow> list_all (\<lambda>c. \<not> isSep c) t"
  by (simp add: validToken_def isSep_def)

lemma isSep_chars: "isSep CHR ''=''" "isSep CHR '',''"
  by (simp_all add: isSep_def)

lemma FieldsFunc_token_end:
  assumes "validToken t"
  shows "FieldsFunc_from isSep [] t = [t]"
proof -
  have "FieldsFunc_from isSep [] (t @ []) = FieldsFunc_from isSep ([] @ t) []"
    using assms by (intro FieldsFunc_from_token validToken_nosep)
  then show ?thesis using assms by (simp add: validToken_def)
qed

lemma FieldsFunc_token_sep:
  assumes "validToken t" "isSep c"
  shows "FieldsFunc_from isSep [] (t @ c # r) = t # FieldsFunc_from isSep [] r"
proof -
  have "FieldsFunc_from isSep [] (t @ c # r) = FieldsFunc_from isSep ([] @ t) (c # r)"
    using assms by (intro FieldsFunc_from_token validToken_nosep)
  then show ?thesis using assms by (simp add: validToken_def)
qed

lemma FieldsFunc_renderLabels:
  "list_all validPair kvs \<Longrightarrow>
   FieldsFunc (renderLabels kvs) isSep = concat (map (\<lambda>kv. [fst kv, snd kv]) kvs)"
proof (induction kvs rule: renderLabels.induct)
  case 1
  then show ?case by (simp add: FieldsFunc_def)
next
  case (2 k v)
  then have "validToken k" "validToken v" by (simp_all add: validPair_def)
  then show ?case
    by (simp add: FieldsFunc_def FieldsFunc_token_sep FieldsFunc_token_end isSep_chars)
next
  case (3 k v kv kvs)
  from "3.prems" have vp: "validPair (k, v)" and rest: "list_all validPair (kv # kvs)"
    by simp_all
  from vp have kv: "validToken k" "validToken v" by (simp_all add: validPair_def)
  have ih: "FieldsFunc_from isSep [] (renderLabels (kv # kvs))
            = concat (map (\<lambda>kv. [fst kv, snd kv]) (kv # kvs))"
    using "3.IH" [OF rest] by (simp add: FieldsFunc_def)
  have "FieldsFunc_from isSep [] (k @ CHR ''='' # v @ CHR '','' # renderLabels (kv # kvs))
        = k # v # FieldsFunc_from isSep [] (renderLabels (kv # kvs))"
    using kv by (simp add: FieldsFunc_token_sep isSep_chars)
  then show ?case using ih by (simp add: FieldsFunc_def)
qed

lemma appendLabels_pairs:
  "appendLabels ls (concat (map (\<lambda>kv. [fst kv, snd kv]) kvs)) = Inr (ls @ map toLabel kvs)"
  by (induction kvs arbitrary: ls) (simp_all add: toLabel_def)

lemma renderLabels_empty_iff:
  "list_all validPair kvs \<Longrightarrow> (renderLabels kvs = []) = (kvs = [])"
  by (induction kvs rule: renderLabels.induct) (auto simp: validPair_def validToken_def)

lemma length_pairs_even: "length (concat (map (\<lambda>kv. [fst kv, snd kv]) kvs)) = 2 * length kvs"
  by (induction kvs) auto

lemma slice_block:
  "slice (nm @ CHR ''{'' # blk @ [c]) (int (length nm) + 1)
     (int (length (nm @ CHR ''{'' # blk @ [c])) - 1) = Inr blk"
proof -
  have "nat (int (length nm) + 1) = Suc (length nm)" by simp
  then show ?thesis by (simp add: slice_def)
qed

section \<open>The name value\<close>

lemma readParams_name_labels:
  assumes "CHR ''{'' \<notin> set nm" "list_all validPair kvs"
  shows "readParams_name p (nm @ ''{'' @ renderLabels kvs @ ''}'')
         = Inr (p\<lparr>p_labels := p_labels p @ map toLabel kvs, p_name := nm\<rparr>, None)"
proof -
  let ?v = "nm @ CHR ''{'' # renderLabels kvs @ [CHR ''}'']"
  have i: "Index ?v CHR ''{'' = int (length nm)" using assms(1) by (rule Index_first)
  have s: "slice ?v (int (length nm) + 1) (int (length ?v) - 1) = Inr (renderLabels kvs)"
    by (rule slice_block)
  show ?thesis
  proof (cases "kvs = []")
    case True
    then show ?thesis using i s by (simp add: readParams_name_def Let_def)
  next
    case False
    define W where "W = concat (map (\<lambda>kv. [fst kv, snd kv]) kvs)"
    have ne: "renderLabels kvs \<noteq> []" using False assms(2) by (simp add: renderLabels_empty_iff)
    have w: "FieldsFunc (renderLabels kvs) isSep = W"
      using assms(2) by (simp add: W_def FieldsFunc_renderLabels)
    have "length W = 2 * length kvs" by (simp add: W_def length_pairs_even)
    then have sz: "W \<noteq> []" "length W mod 2 = 0" using False by auto
    have ap: "appendLabels (p_labels p) W = Inr (p_labels p @ map toLabel kvs)"
      by (simp add: W_def appendLabels_pairs)
    show ?thesis using i s ne
      by (simp add: readParams_name_def Let_def w sz ap)
  qed
qed

lemma readParams_name_plain:
  assumes "CHR ''{'' \<notin> set nm"
  shows "readParams_name p nm = Inr (p\<lparr>p_name := nm\<rparr>, None)"
  using assms by (simp add: readParams_name_def Index_absent Let_def)

text \<open>A value whose first \<open>{\<close> is its last character: the slice \<open>[i+1 : i]\<close> panics.\<close>

lemma readParams_name_brace_last:
  assumes "CHR ''{'' \<notin> set nm"
  shows "readParams_name p (nm @ ''{'') = Inl SliceBoundsOutOfRange"
proof -
  have "Index (nm @ CHR ''{'' # []) CHR ''{'' = int (length nm)"
    using assms by (rule Index_first)
  then show ?thesis by (simp add: readParams_name_def slice_def Let_def)
qed

text \<open>A value that starts with \<open>{\<close> and parses gives the empty name.\<close>

lemma readParams_name_empty_name:
  assumes "readParams_name p (CHR ''{'' # rest) = Inr (p', None)"
  shows "p_name p' = []"
  using assms
  by (auto simp: readParams_name_def Let_def split: sum.splits if_splits)

section \<open>Claims about the query parameters\<close>

text \<open>
  C1. The claim: for every query string \<open>readParams\<close> returns a params value or an error
  and never panics, also when the first \<open>{\<close> of \<open>name\<close> is its last character. The code
  at \<open>from=1000&name=app{&until=2000&format=jfr\<close>: the first \<open>{\<close> is at index 3 of a
  value of length 4, the label block is the slice \<open>[4:3]\<close>, and taking it panics.
\<close>

theorem readParams_panics_brace_last:
  "readParams (exQuery ''app{'') = Inl SliceBoundsOutOfRange"
  by (simp add: readParams_def exQuery_def index_def ParseUint_1000 readParams_name_def slice_def)

text \<open>
  C4. The claim: a \<open>name\<close> value whose application-name part is empty fails validation,
  and the name of a returned params value is never empty. The code at
  \<open>from=1000&name={a=b}&until=2000&format=jfr\<close>: validation succeeds and the name is the
  empty string.
\<close>

theorem readParams_accepts_empty_name:
  "readParams (exQuery ''{a=b}'')
   = Inr (\<lparr>p_start = 1000, p_end = 2000, p_name = [],
           p_labels = [\<lparr>Name = ''a'', Value = ''b''\<rparr>]\<rparr>, None)"
  by (simp add: readParams_def exQuery_def index_def ParseUint_1000 ParseUint_2000
      readParams_name_def slice_def FieldsFunc_def isSep_def readParams_until_def)

text \<open>
  C5. For a \<open>name\<close> value \<open>nm{k1=v1,k2=v2,...}\<close>, where \<open>nm\<close> has no \<open>{\<close> and every key
  and value is a non-empty string without \<open>=\<close> and \<open>,\<close>, \<open>readParams\<close> returns the name
  \<open>nm\<close> and exactly the listed pairs, in their order and with duplicates kept; for
  \<open>nm{}\<close> and for \<open>nm\<close> alone it returns \<open>nm\<close> and no label. (The start and end times are
  present and parse, so that the parameters as a whole are returned.)
\<close>

theorem readParams_label_expression:
  assumes "qs ''from'' = Some (f # fs)" and "ParseUint f = Inr s"
    and "qs ''until'' = Some (u # us)" and "ParseUint u = Inr e"
    and "qs ''name'' = Some (v # vs)"
    and "CHR ''{'' \<notin> set nm" and "list_all validPair kvs"
    and "v = nm @ ''{'' @ renderLabels kvs @ ''}'' \<or> (v = nm \<and> kvs = [])"
  shows "readParams qs
         = Inr (\<lparr>p_start = s, p_end = e, p_name = nm, p_labels = map toLabel kvs\<rparr>, None)"
proof -
  let ?p = "\<lparr>p_start = s, p_end = 0, p_name = [], p_labels = []\<rparr>"
  have nm: "readParams_name ?p v = Inr (?p\<lparr>p_labels := map toLabel kvs, p_name := nm\<rparr>, None)"
    using assms(8)
  proof
    assume "v = nm @ ''{'' @ renderLabels kvs @ ''}''"
    then show ?thesis using readParams_name_labels [OF assms(6,7), of ?p] by simp
  next
    assume "v = nm \<and> kvs = []"
    then show ?thesis using readParams_name_plain [OF assms(6), of ?p] by simp
  qed
  show ?thesis
    using assms(1-5) nm by (simp add: readParams_def readParams_until_def index_def)
qed

theorem readParams_label_expression_witness:
  "readParams (exQuery ''svc{env=prod,k=v,env=dev}'')
   = Inr (\<lparr>p_start = 1000, p_end = 2000, p_name = ''svc'',
           p_labels = [\<lparr>Name = ''env'', Value = ''prod''\<rparr>, \<lparr>Name = ''k'', Value = ''v''\<rparr>,
                       \<lparr>Name = ''env'', Value = ''dev''\<rparr>]\<rparr>, None)
   \<and> readParams (exQuery ''svc{}'')
   = Inr (\<lparr>p_start = 1000, p_end = 2000, p_name = ''svc'', p_labels = []\<rparr>, None)
   \<and> readParams (exQuery ''svc'')
   = Inr (\<lparr>p_start = 1000, p_end = 2000, p_name = ''svc'', p_labels = []\<rparr>, None)"
proof -
  have a: "readParams (exQuery ''svc{env=prod,k=v,env=dev}'')
     = Inr (\<lparr>p_start = 1000, p_end = 2000, p_name = ''svc'',
           p_labels = map toLabel [(''env'', ''prod''), (''k'', ''v''), (''env'', ''dev'')]\<rparr>, None)"
    by (rule readParams_label_expression [where f = "''1000''" and fs = "[]" and u = "''2000''"
          and us = "[]" and vs = "[]" and v = "''svc{env=prod,k=v,env=dev}''"])
       (simp_all add: exQuery_def ParseUint_1000 ParseUint_2000 validPair_def validToken_def)
  have b: "readParams (exQuery ''svc{}'')
     = Inr (\<lparr>p_start = 1000, p_end = 2000, p_name = ''svc'', p_labels = map toLabel []\<rparr>, None)"
    by (rule readParams_label_expression [where f = "''1000''" and fs = "[]" and u = "''2000''"
          and us = "[]" and vs = "[]" and v = "''svc{}''"])
       (simp_all add: exQuery_def ParseUint_1000 ParseUint_2000)
  have c: "readParams (exQuery ''svc'')
     = Inr (\<lparr>p_start = 1000, p_end = 2000, p_name = ''svc'', p_labels = map toLabel []\<rparr>, None)"
    by (rule readParams_label_expression [where f = "''1000''" and fs = "[]" and u = "''2000''"
          and us = "[]" and vs = "[]" and v = "''svc''"])
       (simp_all add: exQuery_def ParseUint_1000 ParseUint_2000)
  show ?thesis using a b c by (simp add: toLabel_def)
qed

section \<open>Responses to invalid query parameters\<close>

lemma readParams_errors:
  assumes "readParams qs = Inr (p, Some e)"
  shows "e = ErrStartMissing \<or> (\<exists>n. e = ErrStartParse n) \<or> e = ErrLabelsMissing
         \<or> e = ErrLabelsCompile \<or> e = ErrEndMissing \<or> (\<exists>n. e = ErrEndParse n)"
  using assms
  by (auto simp: readParams_def readParams_name_def readParams_until_def Let_def
      split: option.splits sum.splits if_splits prod.splits)

lemma Error_distinct:
  "distinct [Error q ErrStartMissing, Error q (ErrStartParse a), Error q ErrLabelsMissing,
             Error q ErrLabelsCompile, Error q ErrEndMissing, Error q (ErrEndParse b)]"
  by simp

lemma handle_bad_query:
  assumes "readParams (URL_Query req) = Inr (p, Some e)"
  shows "handle ev req =
           (None, [RequestTotalAdd 1 [] ''1'',
                   ResponseTimeMillisRecord (NowUnix ev - startTimeFromContext ev) [] ''1'',
                   LoggerError ''bad url query'',
                   HeaderSet ''Content-Type'' ''text/plain'',
                   WriteHeader 400, Write ''bad url query''])"
  using assms
  by (simp add: handle_def handleError_def writeResponse_def StatusBadRequest_def errorCodeError_def)

lemma readParams_exNoFrom:
  "readParams exNoFrom
   = Inr (\<lparr>p_start = 0, p_end = 0, p_name = [], p_labels = []\<rparr>, Some ErrStartMissing)"
  by (simp add: readParams_def exNoFrom_def)

lemma readParams_exNoUntil:
  "readParams exNoUntil
   = Inr (\<lparr>p_start = 1000, p_end = 0, p_name = ''svc'', p_labels = []\<rparr>, Some ErrEndMissing)"
  by (simp add: readParams_def exNoUntil_def index_def ParseUint_1000 readParams_name_def
      readParams_until_def)

text \<open>
  C6. When the label block of the \<open>name\<close> value (the characters between the first \<open>{\<close>
  and the last character) is not empty and splits on \<open>=\<close> and \<open>,\<close> into an odd number of
  tokens, \<open>readParams\<close> fails with the error \<open>failed to compile labels\<close>, the params
  it returns carry no label at all, and the handler rejects the request with status 400.
  (The start time is present and parses, so that the \<open>name\<close> value is read.)
\<close>

theorem readParams_odd_tokens:
  assumes "qs ''from'' = Some (f # fs)" and "ParseUint f = Inr s"
    and "qs ''name'' = Some (v # vs)"
    and "0 \<le> Index v CHR ''{''"
    and "slice v (Index v CHR ''{'' + 1) (int (length v) - 1) = Inr blk"
    and "blk \<noteq> []" and "odd (length (FieldsFunc blk isSep))"
    and "URL_Query req = qs"
  shows "readParams qs
         = Inr (\<lparr>p_start = s, p_end = 0, p_name = [], p_labels = []\<rparr>, Some ErrLabelsCompile)
       \<and> Error q ErrLabelsCompile = ''failed to compile labels''
       \<and> handle ev req =
           (None, [RequestTotalAdd 1 [] ''1'',
                   ResponseTimeMillisRecord (NowUnix ev - startTimeFromContext ev) [] ''1'',
                   LoggerError ''bad url query'',
                   HeaderSet ''Content-Type'' ''text/plain'',
                   WriteHeader 400, Write ''bad url query''])"
proof -
  let ?p = "\<lparr>p_start = s, p_end = 0, p_name = [], p_labels = []\<rparr>"
  have "readParams_name ?p v = Inr (?p, Some ErrLabelsCompile)"
    using assms(4-7) by (simp add: readParams_name_def Let_def odd_iff_mod_2_eq_one)
  then have r: "readParams qs = Inr (?p, Some ErrLabelsCompile)"
    using assms(1-3) by (simp add: readParams_def index_def)
  then show ?thesis using handle_bad_query [of req ?p ErrLabelsCompile ev] assms(8) by simp
qed

theorem readParams_odd_tokens_witness:
  "readParams (exQuery ''app{a=b,c}'')
     = Inr (\<lparr>p_start = 1000, p_end = 0, p_name = [], p_labels = []\<rparr>, Some ErrLabelsCompile)
   \<and> handle (exEnv [exProfile]) (exRequest ''POST'' (exQuery ''app{a=b,c}'')) =
       (None, [RequestTotalAdd 1 [] ''1'', ResponseTimeMillisRecord (- 999) [] ''1'',
               LoggerError ''bad url query'', HeaderSet ''Content-Type'' ''text/plain'',
               WriteHeader 400, Write ''bad url query''])"
proof -
  have i: "Index ''app{a=b,c}'' CHR ''{'' = 3" by simp
  have "readParams (exQuery ''app{a=b,c}'')
         = Inr (\<lparr>p_start = 1000, p_end = 0, p_name = [], p_labels = []\<rparr>, Some ErrLabelsCompile)
       \<and> Error id ErrLabelsCompile = ''failed to compile labels''
       \<and> handle (exEnv [exProfile]) (exRequest ''POST'' (exQuery ''app{a=b,c}'')) =
           (None, [RequestTotalAdd 1 [] ''1'',
                   ResponseTimeMillisRecord (NowUnix (exEnv [exProfile]) - startTimeFromContext (exEnv [exProfile])) [] ''1'',
                   LoggerError ''bad url query'',
                   HeaderSet ''Content-Type'' ''text/plain'',
                   WriteHeader 400, Write ''bad url query''])"
    by (rule readParams_odd_tokens [where f = "''1000''" and fs = "[]" and vs = "[]"
          and v = "''app{a=b,c}''" and blk = "''a=b,c''"])
       (simp_all add: exQuery_def exRequest_def ParseUint_1000 i slice_def FieldsFunc_def isSep_def)
  then show ?thesis by (simp add: exEnv_def)
qed

text \<open>
  Whenever \<open>readParams\<close> fails, the handler answers 400 with the plain-text body
  \<open>bad url query\<close>, the same body for every failure. The failure is one of six (start
  time missing or unparseable, name missing, label expression malformed, end time missing
  or unparseable), and the messages of the six errors are pairwise different, but they
  stay in the error value: the handler neither writes nor logs them.
\<close>

lemma validation_failure_response:
  assumes "readParams (URL_Query req) = Inr (p, Some e)"
  shows "handle ev req =
           (None, [RequestTotalAdd 1 [] ''1'',
                   ResponseTimeMillisRecord (NowUnix ev - startTimeFromContext ev) [] ''1'',
                   LoggerError ''bad url query'',
                   HeaderSet ''Content-Type'' ''text/plain'',
                   WriteHeader 400, Write ''bad url query''])
       \<and> (e = ErrStartMissing \<or> (\<exists>n. e = ErrStartParse n) \<or> e = ErrLabelsMissing
          \<or> e = ErrLabelsCompile \<or> e = ErrEndMissing \<or> (\<exists>n. e = ErrEndParse n))
       \<and> distinct [Error q ErrStartMissing, Error q (ErrStartParse a), Error q ErrLabelsMissing,
                   Error q ErrLabelsCompile, Error q ErrEndMissing, Error q (ErrEndParse b)]"
  using handle_bad_query [OF assms] readParams_errors [OF assms] Error_distinct by blast

lemma validation_failure_response_exNoUntil:
  "readParams (URL_Query (exRequest ''POST'' exNoUntil))
     = Inr (\<lparr>p_start = 1000, p_end = 0, p_name = ''svc'', p_labels = []\<rparr>, Some ErrEndMissing)
   \<and> handle (exEnv []) (exRequest ''POST'' exNoUntil) =
       (None, [RequestTotalAdd 1 [] ''1'', ResponseTimeMillisRecord (- 999) [] ''1'',
               LoggerError ''bad url query'', HeaderSet ''Content-Type'' ''text/plain'',
               WriteHeader 400, Write ''bad url query''])"
proof -
  have r: "readParams (URL_Query (exRequest ''POST'' exNoUntil))
     = Inr (\<lparr>p_start = 1000, p_end = 0, p_name = ''svc'', p_labels = []\<rparr>, Some ErrEndMissing)"
    by (simp add: exRequest_def readParams_exNoUntil)
  show ?thesis
    using r validation_failure_response [OF r, of "exEnv []" id "NumError [] ErrSyntax" "NumError [] ErrSyntax"]
    by (simp add: exEnv_def)
qed

text \<open>
  C3. The claim: the body of the response to a query-parameter validation failure is that
  failure's own descriptive message, a different one for each of the six failures. The
  code at \<open>name=svc&until=2000&format=jfr\<close>, without \<open>from\<close>: the error's message is
  \<open>required start time is missing\<close>, but the body written is \<open>bad url query\<close>; and
  at \<open>from=1000&name=svc&format=jfr\<close>, without \<open>until\<close>, a different failure, the
  body is the very same. The handler's other error paths write the message of the error
  they hold.
\<close>

theorem validation_failure_message_discarded:
  "readParams (URL_Query (exRequest ''POST'' exNoFrom))
     = Inr (\<lparr>p_start = 0, p_end = 0, p_name = [], p_labels = []\<rparr>, Some ErrStartMissing)
   \<and> filter isWrite (snd (handle (exEnv []) (exRequest ''POST'' exNoFrom)))
       \<noteq> [Write (Error (Quote (exEnv [])) ErrStartMissing)]
   \<and> readParams (URL_Query (exRequest ''POST'' exNoUntil))
     = Inr (\<lparr>p_start = 1000, p_end = 0, p_name = ''svc'', p_labels = []\<rparr>, Some ErrEndMissing)
   \<and> filter isWrite (snd (handle (exEnv []) (exRequest ''POST'' exNoUntil)))
       = filter isWrite (snd (handle (exEnv []) (exRequest ''POST'' exNoFrom)))"
proof -
  have a: "readParams (URL_Query (exRequest ''POST'' exNoFrom))
     = Inr (\<lparr>p_start = 0, p_end = 0, p_name = [], p_labels = []\<rparr>, Some ErrStartMissing)"
    by (simp add: exRequest_def readParams_exNoFrom)
  have b: "readParams (URL_Query (exRequest ''POST'' exNoUntil))
     = Inr (\<lparr>p_start = 1000, p_end = 0, p_name = ''svc'', p_labels = []\<rparr>, Some ErrEndMissing)"
    by (simp add: exRequest_def readParams_exNoUntil)
  show ?thesis
    using a b handle_bad_query [OF a, of "exEnv []"] handle_bad_query [OF b, of "exEnv []"]
    by (simp add: isWrite_def)
qed

section \<open>The format parameter and the empty batch\<close>


lemma handleError_events:
  "filter isBodyProcessing (handleError ev ct st msg service code) = []"
  "filter isCallConsumeLogs (handleError ev ct st msg service code) = []"
  "filter isRequestTotalAdd (handleError ev ct st msg service code)
     = [RequestTotalAdd 1 service code]"
  "filter isResponseTimeMillisRecord (handleError ev ct st msg service code)
     = [ResponseTimeMillisRecord (NowUnix ev - startTimeFromContext ev) service code]"
  "filter isWriteHeader (handleError ev ct st msg service code) = [WriteHeader st]"
  "filter isWrite (handleError ev ct st msg service code) = [Write msg]"
  "filter isLoggerError (handleError ev ct st msg service code) = [LoggerError msg]"
  by (simp_all add: handleError_def writeResponse_def isBodyProcessing_def isCallConsumeLogs_def
      isRequestTotalAdd_def isResponseTimeMillisRecord_def isWriteHeader_def isWrite_def
      isLoggerError_def)

lemma handleError_no_CallParse: "CallParse buf md \<notin> set (handleError ev ct st msg service code)"
  by (simp add: handleError_def writeResponse_def)

lemma readProfiles_parser_empty:
  assumes "CallParse buf md \<in> set (snd (readProfiles ev req pm))"
    and "Parse ev buf md = Inr []"
  shows "\<exists>f. readProfiles ev req pm =
           (Inr ([[[]]], None),
            [CallParseMultipartForm, CallDecompress f,
             RequestBodyUncompressedSizeBytesRecord (int (length buf)) (p_name pm) formatJfr [],
             CallParse buf md,
             ParsedBodyUncompressedSizeBytesRecord 0 (p_name pm) formatPprof []])"
  using assms
  by (auto simp: readProfiles_def readProfiles_jfr_def openMultipartJfr_def Let_def
      split: option.splits sum.splits if_splits prod.splits)


text \<open>
  C8. When the profile parser is called and returns no profile, the handler ends
  normally, answers \<open>204 No Content\<close> with no body, does not call the next consumer, and
  logs no error.
\<close>

theorem no_profiles_no_content:
  assumes "CallParse buf md \<in> set (snd (handle ev req))"
    and "Parse ev buf md = Inr []"
  shows "fst (handle ev req) = None
       \<and> filter isWriteHeader (snd (handle ev req)) = [WriteHeader 204]
       \<and> filter isWrite (snd (handle ev req)) = []
       \<and> filter isCallConsumeLogs (snd (handle ev req)) = []
       \<and> filter isLoggerError (snd (handle ev req)) = []"
proof -
  obtain pm where pm: "readParams (URL_Query req) = Inr (pm, None)"
    and post: "Method req = MethodPost"
    and c: "CallParse buf md \<in> set (snd (readProfiles ev req pm))"
    using assms(1)
    by (auto simp: handle_def handleError_no_CallParse Let_def writeResponseNoContent_def writeResponse_def
        split: sum.splits option.splits prod.splits if_splits)
  obtain f where "readProfiles ev req pm =
           (Inr ([[[]]], None),
            [CallParseMultipartForm, CallDecompress f,
             RequestBodyUncompressedSizeBytesRecord (int (length buf)) (p_name pm) formatJfr [],
             CallParse buf md,
             ParsedBodyUncompressedSizeBytesRecord 0 (p_name pm) formatPprof []])"
    using readProfiles_parser_empty [OF c assms(2)] by blast
  then show ?thesis using pm post
    by (simp add: handle_def index_def writeResponseNoContent_def writeResponse_def
        StatusNoContent_def isWriteHeader_def isWrite_def isCallConsumeLogs_def isLoggerError_def)
qed

section \<open>The duration attribute\<close>

lemma setAttrsFromProfile_duration:
  "map_of (fst (setAttrsFromProfile pr m)) ''duration_ns'' = map_of m ''duration_ns''"
  by (simp add: setAttrsFromProfile_def FromRaw_def Let_def update_conv')

lemma appendRecords_duration:
  assumes "appendRecords pm rs sz ps = (rs', sz', err)" and "r \<in> set rs'"
  shows "r \<in> set rs \<or>
         map_of (Attributes r) ''duration_ns''
           = Some (ValueStr (Sprint_uint64 (ns (p_end pm - p_start pm))))"
  using assms
proof (induction ps arbitrary: rs sz)
  case Nil
  then show ?case by simp
next
  case (Cons pr ps)
  let ?m = "AList.update ''tags'' (ValueMap (putTags (p_labels pm)))
             (AList.update ''service_name'' (ValueStr (p_name pm))
               (AList.update ''duration_ns''
                 (ValueStr (Sprint_uint64 (ns (p_end pm - p_start pm)))) []))"
  obtain m' e where s: "setAttrsFromProfile pr ?m = (m', e)" by (cases "setAttrsFromProfile pr ?m")
  have d: "map_of m' ''duration_ns'' = Some (ValueStr (Sprint_uint64 (ns (p_end pm - p_start pm))))"
    using setAttrsFromProfile_duration [of pr ?m] s by (simp add: update_conv')
  show ?case
  proof (cases e)
    case None
    with Cons.prems s have
      "appendRecords pm
         (rs @ [\<lparr>Timestamp = ns (p_start pm), Attributes = m', Body = ValueBytes (ir_Payload pr)\<rparr>])
         (sz + int (length (ir_Payload pr))) ps = (rs', sz', err)"
      by (simp add: Let_def)
    from Cons.IH [OF this Cons.prems(2)] d show ?thesis by auto
  next
    case (Some x)
    with Cons.prems s d show ?thesis by (auto simp: Let_def)
  qed
qed

lemma appendRecords_duration0:
  assumes "appendRecords pm [] sz ps = (rs', sz', err)" and "r \<in> set rs'"
  shows "map_of (Attributes r) ''duration_ns''
           = Some (ValueStr (Sprint_uint64 (ns (p_end pm - p_start pm))))"
  using appendRecords_duration [OF assms] by simp

lemma readProfiles_duration:
  assumes "fst (readProfiles ev req pm) = Inr (logs, err)" and "r \<in> set (concat (concat logs))"
  shows "map_of (Attributes r) ''duration_ns''
           = Some (ValueStr (Sprint_uint64 (ns (p_end pm - p_start pm))))"
  using assms
  by (auto simp: readProfiles_def readProfiles_jfr_def Let_def
      split: option.splits sum.splits if_splits prod.splits dest: appendRecords_duration0)

lemma nat_wrap_ge:
  fixes a b m :: nat
  assumes "b \<le> a" and "a < m"
  shows "(a + m - b) mod m = a - b"
proof -
  have eq: "a + m - b = (a - b) + m" using assms by arith
  have lt: "a - b < m" using assms by arith
  have "(a + m - b) mod m = ((a - b) + m) mod m" by (simp only: eq)
  also have "\<dots> = (a - b) mod m" by (simp only: mod_add_self2)
  also have "\<dots> = a - b" using lt by (simp only: mod_less)
  finally show ?thesis .
qed

lemma nat_wrap_less:
  fixes a b m :: nat
  assumes "a < b" and "b < m"
  shows "(a + m - b) mod m = a + m - b"
proof -
  have "a + m - b < m" using assms by arith
  then show ?thesis by (simp only: mod_less)
qed

lemma unat_sub_wrap:
  fixes e s :: "64 word"
  shows "unat (e - s) = (unat e + 2 ^ 64 - unat s) mod 2 ^ 64"
proof -
  have b: "unat e < 2 ^ 64" "unat s < 2 ^ 64"
    using unsigned_less [of e] unsigned_less [of s] by simp_all
  show ?thesis
  proof (cases "unat s \<le> unat e")
    case True
    have "(unat e + 2 ^ 64 - unat s) mod 2 ^ 64 = unat e - unat s"
      using True b(1) by (rule nat_wrap_ge)
    then show ?thesis using True by (simp add: unat_sub_if')
  next
    case False
    then have "unat e < unat s" by simp
    then have "(unat e + 2 ^ 64 - unat s) mod 2 ^ 64 = unat e + 2 ^ 64 - unat s"
      using b(2) by (rule nat_wrap_less)
    then show ?thesis using False by (simp add: unat_sub_if')
  qed
qed

lemma unat_ns_sub:
  fixes e s :: "64 word"
  shows "unat (ns (e - s)) = ((unat e + 2 ^ 64 - unat s) mod 2 ^ 64 * 1000000000) mod 2 ^ 64"
proof -
  have "unat (ns (e - s)) = unat (e - s) * unat (1000000000 :: 64 word) mod 2 ^ LENGTH(64)"
    unfolding ns_def by (rule unat_word_ariths(2))
  moreover have "unat (1000000000 :: 64 word) = 1000000000" by simp
  ultimately have "unat (ns (e - s)) = unat (e - s) * 1000000000 mod 2 ^ 64" by simp
  then show ?thesis unfolding unat_sub_wrap .
qed

text \<open>
  C7. Every record \<open>readProfiles\<close> assembles carries the attribute \<open>duration_ns\<close>, the
  decimal digits of \<open>(end - start) * 1000000000\<close> computed modulo \<open>2 ^ 64\<close>; when
  \<open>end < start\<close> the difference wraps around to \<open>2 ^ 64 - (start - end)\<close> and nothing
  fails.
\<close>

theorem duration_ns_wraps:
  assumes "fst (readProfiles ev req pm) = Inr (logs, err)" and "r \<in> set (concat (concat logs))"
  shows "map_of (Attributes r) ''duration_ns''
           = Some (ValueStr (decimal
               (((unat (p_end pm) + 2 ^ 64 - unat (p_start pm)) mod 2 ^ 64 * 1000000000) mod 2 ^ 64)))
       \<and> (p_end pm < p_start pm \<longrightarrow>
            unat (p_end pm - p_start pm) = 2 ^ 64 - (unat (p_start pm) - unat (p_end pm)))"
proof -
  have "p_end pm < p_start pm \<longrightarrow>
            unat (p_end pm - p_start pm) = 2 ^ 64 - (unat (p_start pm) - unat (p_end pm))"
    using unsigned_less [of "p_start pm"] by (auto simp: unat_sub_if' word_less_nat_alt)
  then show ?thesis
    using readProfiles_duration [OF assms] by (simp add: Sprint_uint64_def unat_ns_sub)
qed

section \<open>Example requests\<close>

lemma readParams_svc: "readParams (exQuery ''svc{env=prod}'') = Inr (exParams, None)"
  by (simp add: readParams_def exQuery_def index_def ParseUint_1000 ParseUint_2000
      readParams_name_def slice_def FieldsFunc_def isSep_def readParams_until_def exParams_def)


lemma readProfiles_none:
  "readProfiles (exEnv []) (exRequest ''POST'' (exQuery n)) pm =
     (Inr ([[[]]], None),
      [CallParseMultipartForm, CallDecompress ''B'',
       RequestBodyUncompressedSizeBytesRecord 1 (p_name pm) ''jfr'' [],
       CallParse ''B'' \<lparr>SampleRateHertz = 0\<rparr>,
       ParsedBodyUncompressedSizeBytesRecord 0 (p_name pm) ''pprof'' []])"
  by (simp add: readProfiles_def readProfiles_jfr_def openMultipartJfr_def exEnv_def
      exRequest_def exQuery_def index_def formatJfr_def formatPprof_def)

lemma readProfiles_one:
  "readProfiles (exEnv [exProfile]) (exRequest ''POST'' (exQuery n)) pm =
     (Inr ([[[exRecord pm]]], None),
      [CallParseMultipartForm, CallDecompress ''B'',
       RequestBodyUncompressedSizeBytesRecord 1 (p_name pm) ''jfr'' [],
       CallParse ''B'' \<lparr>SampleRateHertz = 0\<rparr>,
       ParsedBodyUncompressedSizeBytesRecord 1 (p_name pm) ''pprof'' []])"
  by (simp add: readProfiles_def readProfiles_jfr_def openMultipartJfr_def exEnv_def
      exRequest_def exQuery_def index_def formatJfr_def formatPprof_def exProfile_def
      exRecord_def setAttrsFromProfile_def FromRaw_def stringToAnyArray_def Let_def)

lemma handle_none:
  "handle (exEnv []) (exRequest ''POST'' (exQuery ''svc{env=prod}'')) =
     (None,
      [CallParseMultipartForm, CallDecompress ''B'',
       RequestBodyUncompressedSizeBytesRecord 1 ''svc'' ''jfr'' [],
       CallParse ''B'' \<lparr>SampleRateHertz = 0\<rparr>,
       ParsedBodyUncompressedSizeBytesRecord 0 ''svc'' ''pprof'' [],
       WriteHeader 204])"
proof -
  have q: "URL_Query (exRequest ''POST'' (exQuery ''svc{env=prod}'')) = exQuery ''svc{env=prod}''"
    and m: "Method (exRequest ''POST'' (exQuery ''svc{env=prod}'')) = ''POST''"
    by (simp_all add: exRequest_def)
  show ?thesis
    by (simp add: handle_def q m readParams_svc readProfiles_none MethodPost_def index_def
        writeResponseNoContent_def writeResponse_def StatusNoContent_def exParams_def)
qed

lemma handle_one:
  "handle (exEnv [exProfile]) (exRequest ''POST'' (exQuery ''svc{env=prod}'')) =
     (None,
      [CallParseMultipartForm, CallDecompress ''B'',
       RequestBodyUncompressedSizeBytesRecord 1 ''svc'' ''jfr'' [],
       CallParse ''B'' \<lparr>SampleRateHertz = 0\<rparr>,
       ParsedBodyUncompressedSizeBytesRecord 1 ''svc'' ''pprof'' [],
       CallConsumeLogs [[[exRecord exParams]]],
       RequestTotalAdd 1 ''svc'' [],
       ResponseTimeMillisRecord 5 ''svc'' [],
       WriteHeader 204])"
proof -
  have q: "URL_Query (exRequest ''POST'' (exQuery ''svc{env=prod}'')) = exQuery ''svc{env=prod}''"
    and m: "Method (exRequest ''POST'' (exQuery ''svc{env=prod}'')) = ''POST''"
    by (simp_all add: exRequest_def)
  have c: "ConsumeLogs (exEnv [exProfile]) l = None"
    "NowUnixMilli (exEnv [exProfile]) = 1005" "startTimeFromContext (exEnv [exProfile]) = 1000" for l
    by (simp_all add: exEnv_def)
  have n: "p_name exParams = ''svc''" by (simp add: exParams_def)
  show ?thesis
    by (simp add: handle_def q m readParams_svc readProfiles_one MethodPost_def index_def
        writeResponseNoContent_def writeResponse_def StatusNoContent_def c n errorCodeSuccess_def)
qed

text \<open>
  C2. The claim: every terminal outcome, the zero-record no-content outcome among them,
  emits exactly one request-count observation and exactly one latency observation. The
  code at a \<open>POST\<close> request with valid parameters whose parser returns no profile: it
  answers 204 and emits neither of the two. The same request with one parsed profile
  takes the success path, which emits one of each before it answers 204.
\<close>

theorem no_content_without_request_metrics:
  "handle (exEnv []) (exRequest ''POST'' (exQuery ''svc{env=prod}'')) =
     (None,
      [CallParseMultipartForm, CallDecompress ''B'',
       RequestBodyUncompressedSizeBytesRecord 1 ''svc'' ''jfr'' [],
       CallParse ''B'' \<lparr>SampleRateHertz = 0\<rparr>,
       ParsedBodyUncompressedSizeBytesRecord 0 ''svc'' ''pprof'' [],
       WriteHeader 204])
   \<and> filter isRequestTotalAdd
         (snd (handle (exEnv []) (exRequest ''POST'' (exQuery ''svc{env=prod}'')))) = []
   \<and> filter isResponseTimeMillisRecord
         (snd (handle (exEnv []) (exRequest ''POST'' (exQuery ''svc{env=prod}'')))) = []
   \<and> filter isRequestTotalAdd
         (snd (handle (exEnv [exProfile]) (exRequest ''POST'' (exQuery ''svc{env=prod}''))))
       = [RequestTotalAdd 1 ''svc'' []]
   \<and> filter isResponseTimeMillisRecord
         (snd (handle (exEnv [exProfile]) (exRequest ''POST'' (exQuery ''svc{env=prod}''))))
       = [ResponseTimeMillisRecord 5 ''svc'' []]"
  by (simp add: handle_none handle_one isRequestTotalAdd_def isResponseTimeMillisRecord_def)

theorem no_profiles_no_content_witness:
  "Parse (exEnv []) ''B'' \<lparr>SampleRateHertz = 0\<rparr> = Inr []
   \<and> fst (handle (exEnv []) (exRequest ''POST'' (exQuery ''svc{env=prod}''))) = None
   \<and> filter isWriteHeader (snd (handle (exEnv []) (exRequest ''POST'' (exQuery ''svc{env=prod}''))))
       = [WriteHeader 204]
   \<and> filter isCallConsumeLogs
         (snd (handle (exEnv []) (exRequest ''POST'' (exQuery ''svc{env=prod}'')))) = []"
proof -
  have c: "CallParse ''B'' \<lparr>SampleRateHertz = 0\<rparr>
           \<in> set (snd (handle (exEnv []) (exRequest ''POST'' (exQuery ''svc{env=prod}''))))"
    by (simp add: handle_none)
  have p: "Parse (exEnv []) ''B'' \<lparr>SampleRateHertz = 0\<rparr> = Inr []"
    by (simp add: exEnv_def)
  show ?thesis using p no_profiles_no_content [OF c p] by simp
qed


theorem duration_ns_wraps_witness:
  "fst (readProfiles (exEnv [exProfile]) (exRequest ''POST'' (exQuery ''svc{env=prod}'')) exParams)
     = Inr ([[[exRecord exParams]]], None)
   \<and> map_of (Attributes (exRecord exParams)) ''duration_ns'' = Some (ValueStr ''1000000000000'')
   \<and> fst (readProfiles (exEnv [exProfile]) (exRequest ''POST'' (exQuery ''svc'')) exReversed)
     = Inr ([[[exRecord exReversed]]], None)
   \<and> map_of (Attributes (exRecord exReversed)) ''duration_ns''
       = Some (ValueStr ''18446743073709551616'')"
proof -
  have a: "fst (readProfiles (exEnv [exProfile]) (exRequest ''POST'' (exQuery ''svc{env=prod}''))
             exParams) = Inr ([[[exRecord exParams]]], None)"
    by (simp add: readProfiles_one)
  have b: "fst (readProfiles (exEnv [exProfile]) (exRequest ''POST'' (exQuery ''svc'')) exReversed)
             = Inr ([[[exRecord exReversed]]], None)"
    by (simp add: readProfiles_one)
  have "map_of (Attributes (exRecord exParams)) ''duration_ns''
          = Some (ValueStr (decimal 1000000000000))"
    using duration_ns_wraps [OF a, of "exRecord exParams"] by (simp add: exParams_def)
  moreover have "map_of (Attributes (exRecord exReversed)) ''duration_ns''
          = Some (ValueStr (decimal 18446743073709551616))"
    using duration_ns_wraps [OF b, of "exRecord exReversed"] by (simp add: exReversed_def)
  ultimately show ?thesis using a b by (simp add: decimal.simps digits_def)
qed


section \<open>The deadline\<close>

lemma httpHandlerIngest_timeout_response:
  "filter isWriteHeader (handleError ev ''text/plain'' StatusRequestTimeout msg [] errorCodeError)
     = [WriteHeader 408]"
  by (simp add: handleError_events StatusRequestTimeout_def)

text \<open>
  Whatever the goroutine does, it does with or without the deadline: every event of
  \<open>handle\<close> is an event of the request, wherever the deadline falls.
\<close>

lemma httpHandlerIngest_keeps_events:
  "set (snd (handle ev req)) \<subseteq> set (snd (httpHandlerIngest ev timeout req deadline))"
proof (cases "handle ev req")
  case (Pair pn es)
  show ?thesis
  proof (cases deadline)
    case None
    then show ?thesis using Pair by (simp add: httpHandlerIngest_def)
  next
    case (Some k)
    have "set es = set (take k es) \<union> set (drop k es)"
      by (metis append_take_drop_id set_append)
    then show ?thesis using Pair Some by (auto simp: httpHandlerIngest_def)
  qed
qed

text \<open>
  C10. The claim: when the deadline elapses before the goroutine signals completion, the
  handler answers 408 and no delegation call is made with a completed batch. The code
  at a valid \<open>POST\<close> request with one parsed profile whose deadline elapses before the
  goroutine has done anything: the 408 is written, and the goroutine, which never tests
  the context, still goes through every stage, hands the completed batch to the next
  consumer, records the success metrics and writes a 204.
\<close>

theorem delegation_after_timeout:
  "httpHandlerIngest (exEnv [exProfile]) ''1s''
     (exRequest ''POST'' (exQuery ''svc{env=prod}'')) (Some 0) =
     (None,
      [RequestTotalAdd 1 [] ''1'', ResponseTimeMillisRecord (- 999) [] ''1'',
       LoggerError ''receiver timeout elapsed: 1s'',
       HeaderSet ''Content-Type'' ''text/plain'',
       WriteHeader 408, Write ''receiver timeout elapsed: 1s'',
       CallParseMultipartForm, CallDecompress ''B'',
       RequestBodyUncompressedSizeBytesRecord 1 ''svc'' ''jfr'' [],
       CallParse ''B'' \<lparr>SampleRateHertz = 0\<rparr>,
       ParsedBodyUncompressedSizeBytesRecord 1 ''svc'' ''pprof'' [],
       CallConsumeLogs [[[exRecord exParams]]],
       RequestTotalAdd 1 ''svc'' [],
       ResponseTimeMillisRecord 5 ''svc'' [],
       WriteHeader 204])"
proof -
  have c: "NowUnix (exEnv [exProfile]) = 1" "startTimeFromContext (exEnv [exProfile]) = 1000"
    by (simp_all add: exEnv_def)
  show ?thesis
    by (simp add: httpHandlerIngest_def handle_one handleError_def writeResponse_def
        StatusRequestTimeout_def errorCodeError_def c)
qed

end
